theory Spec2Isabelle
  imports Main
begin

section \<open>regobslib: the APS data model of \<^verbatim>\<open>aps.py\<close>\<close>

text \<open>
  The embedding follows \<^verbatim>\<open>src/regobslib/aps.py\<close>. Python exceptions are values of
  \<open>error\<close>; every function that can raise returns \<open>error + 'a\<close> with \<open>Inl\<close> for the
  exception. Python integers are \<open>int\<close>; an attribute that may hold \<^verbatim>\<open>None\<close> is an
  \<open>option\<close>. JSON numbers are modelled as integers: floating-point payload values are
  outside the embedding (the percentile values are only copied, never computed with).
\<close>

subsection \<open>Exceptions\<close>

datatype error =
    ValueError string
  | TypeError
  | KeyError string
  | StopIteration

text \<open>
  The source raises \<^verbatim>\<open>ValueError\<close> everywhere and tells the failures apart by message
  only. The names of the specification's error taxonomy stand for these messages.
\<close>

definition IncompatibleMerge :: error where
  "IncompatibleMerge = ValueError ''Incompatible days''"

definition ConflictingData :: "string \<Rightarrow> error" where
  "ConflictingData attr = ValueError (''Both levels have valid '' @ attr @ '' data'')"

definition InvalidArgument :: error where
  "InvalidArgument =
     ValueError ''Only one of elevation and level_index parameters can be defined''"

definition EmptyContainerError :: error where
  "EmptyContainerError = ValueError ''No days to find region from''"

subsection \<open>Python truthiness\<close>

text \<open>
  \<^verbatim>\<open>bool(x)\<close> for an optional integer: \<^verbatim>\<open>None\<close> and \<^verbatim>\<open>0\<close> are falsy.
  \<^verbatim>\<open>x or y\<close> is \<^verbatim>\<open>x\<close> when \<^verbatim>\<open>x\<close> is truthy and \<^verbatim>\<open>y\<close> otherwise.
\<close>

fun int_bool :: "int option \<Rightarrow> bool" where
  "int_bool None = False"
| "int_bool (Some n) = (n \<noteq> 0)"

subsection \<open>Data: seven percentiles of one weather parameter\<close>

text \<open>
  The seven subclasses of \<^verbatim>\<open>Data\<close>, and \<^verbatim>\<open>WEATHER_ATTRS\<close> in the order of the
  dictionary literal (the order \<^verbatim>\<open>WEATHER_ATTRS.values()\<close> iterates in).
\<close>

datatype weather = Precip | PrecipMax | Temp | Wind | SnowDepth | NewSnow | NewSnowMax

definition WEATHER_ATTRS :: "(weather \<times> string) list" where
  "WEATHER_ATTRS =
     [(Precip, ''precip''), (PrecipMax, ''precip_max''), (Temp, ''temp''), (Wind, ''wind''),
      (SnowDepth, ''snow_depth''), (NewSnow, ''new_snow''), (NewSnowMax, ''new_snow_max'')]"

record Data =
  cls :: weather
  perc00 :: "int option"
  perc05 :: "int option"
  perc25 :: "int option"
  perc50 :: "int option"
  perc75 :: "int option"
  perc95 :: "int option"
  perc100 :: "int option"

text \<open>
  \<^verbatim>\<open>Data\<close> defines neither \<^verbatim>\<open>__bool__\<close> nor \<^verbatim>\<open>__len__\<close> (and its base class
  \<^verbatim>\<open>Dictable\<close> of \<^verbatim>\<open>submit.py\<close> is taken to define neither), so an instance is truthy
  and only \<^verbatim>\<open>None\<close> is falsy in a measurement slot.
\<close>

fun Data_bool :: "Data option \<Rightarrow> bool" where
  "Data_bool None = False"
| "Data_bool (Some d) = True"

fun Data_or :: "Data option \<Rightarrow> Data option \<Rightarrow> Data option" where
  "Data_or s o' = (if Data_bool s then s else o')"

subsection \<open>Level: one elevation band\<close>

record Level =
  floor :: "int option"
  roof :: "int option"
  index :: "int option"
  precip :: "Data option"
  precip_max :: "Data option"
  temp :: "Data option"
  wind :: "Data option"
  snow_depth :: "Data option"
  new_snow :: "Data option"
  new_snow_max :: "Data option"

text \<open>\<^verbatim>\<open>Level()\<close>: the class attributes default to \<^verbatim>\<open>None\<close>, \<^verbatim>\<open>__init__\<close> clears the slots.\<close>

definition Level_init :: Level where
  "Level_init = \<lparr> floor = None, roof = None, index = None, precip = None, precip_max = None,
     temp = None, wind = None, snow_depth = None, new_snow = None, new_snow_max = None \<rparr>"

fun getattr :: "Level \<Rightarrow> string \<Rightarrow> Data option" where
  "getattr l a =
     (if a = ''precip'' then precip l
      else if a = ''precip_max'' then precip_max l
      else if a = ''temp'' then temp l
      else if a = ''wind'' then wind l
      else if a = ''snow_depth'' then snow_depth l
      else if a = ''new_snow'' then new_snow l
      else if a = ''new_snow_max'' then new_snow_max l
      else None)"

fun setattr :: "Level \<Rightarrow> string \<Rightarrow> Data option \<Rightarrow> Level" where
  "setattr l a v =
     (if a = ''precip'' then l\<lparr>precip := v\<rparr>
      else if a = ''precip_max'' then l\<lparr>precip_max := v\<rparr>
      else if a = ''temp'' then l\<lparr>temp := v\<rparr>
      else if a = ''wind'' then l\<lparr>wind := v\<rparr>
      else if a = ''snow_depth'' then l\<lparr>snow_depth := v\<rparr>
      else if a = ''new_snow'' then l\<lparr>new_snow := v\<rparr>
      else if a = ''new_snow_max'' then l\<lparr>new_snow_max := v\<rparr>
      else l)"

text \<open>\<^verbatim>\<open>Level.__bool__\<close>: \<^verbatim>\<open>any([getattr(self, k) for k in WEATHER_ATTRS.values()])\<close>.\<close>

definition Level_bool :: "Level \<Rightarrow> bool" where
  "Level_bool l = list_ex (\<lambda>k. Data_bool (getattr l k)) (map snd WEATHER_ATTRS)"

subsection \<open>Level.assimilate\<close>

text \<open>
  The local helper of \<^verbatim>\<open>Level.assimilate\<close>:
  \<^verbatim>\<open>max(self_, other_) if self_ and other_ else self_ or other_\<close>.
  \<open>int_max\<close> is only reached with two integers (both operands are truthy).
\<close>

fun int_or :: "int option \<Rightarrow> int option \<Rightarrow> int option" where
  "int_or s o' = (if int_bool s then s else o')"

fun int_max :: "int option \<Rightarrow> int option \<Rightarrow> int option" where
  "int_max (Some a) (Some b) = Some (max a b)"
| "int_max s o' = None"

definition max_or_not_none :: "int option \<Rightarrow> int option \<Rightarrow> int option" where
  "max_or_not_none s o' =
     (if int_bool s \<and> int_bool o' then int_max s o' else int_or s o')"

text \<open>
  The loop over \<^verbatim>\<open>WEATHER_ATTRS.values()\<close>: a slot filled on exactly one side is copied,
  a slot filled on both sides raises, a slot filled on neither side stays \<^verbatim>\<open>None\<close>.
\<close>

fun assimilate_attrs :: "Level \<Rightarrow> Level \<Rightarrow> string list \<Rightarrow> Level \<Rightarrow> error + Level" where
  "assimilate_attrs self other [] level = Inr level"
| "assimilate_attrs self other (attr # attrs) level =
     (let s = getattr self attr; o' = getattr other attr in
      if Data_bool s \<noteq> Data_bool o'
      then assimilate_attrs self other attrs (setattr level attr (Data_or s o'))
      else if Data_bool s \<and> Data_bool o'
      then Inl (ConflictingData attr)
      else assimilate_attrs self other attrs level)"

definition Level_assimilate :: "Level \<Rightarrow> Level \<Rightarrow> error + Level" where
  "Level_assimilate self other =
     assimilate_attrs self other (map snd WEATHER_ATTRS)
       (Level_init\<lparr> floor := max_or_not_none (floor self) (floor other),
                    roof := max_or_not_none (roof self) (roof other),
                    index := max_or_not_none (index self) (index other) \<rparr>)"

subsection \<open>Day: one date of one region\<close>

text \<open>
  A \<^verbatim>\<open>datetime.date\<close> is its year, month and day; a \<^verbatim>\<open>SnowRegion\<close> (an enumeration of
  \<^verbatim>\<open>region.py\<close>) is its integer code.
\<close>

type_synonym date = "int \<times> int \<times> int"
type_synonym SnowRegion = int

record Day =
  date :: date
  region :: SnowRegion
  levels :: "Level list"

text \<open>\<^verbatim>\<open>Day.__bool__\<close>: \<^verbatim>\<open>any(self.levels)\<close>.\<close>

definition Day_bool :: "Day \<Rightarrow> bool" where
  "Day_bool d = list_ex Level_bool (levels d)"

text \<open>
  The loop of \<^verbatim>\<open>Day.assimilate\<close> over \<^verbatim>\<open>range(max(len(self.levels), len(other.levels)))\<close>.
  It runs only when both lists are non-empty, so both indices are in range.
\<close>

fun assimilate_levels ::
  "Level list \<Rightarrow> Level list \<Rightarrow> nat list \<Rightarrow> Level list \<Rightarrow> error + Level list" where
  "assimilate_levels ss os [] acc = Inr acc"
| "assimilate_levels ss os (i # is) acc =
     (let self_i = min i (length ss - 1); other_i = min i (length os - 1) in
      case Level_assimilate (ss ! self_i) (os ! other_i) of
        Inl e \<Rightarrow> Inl e
      | Inr level \<Rightarrow> assimilate_levels ss os is (acc @ [level]))"

definition Day_assimilate :: "Day \<Rightarrow> Day \<Rightarrow> error + Day" where
  "Day_assimilate self other =
     (if date self \<noteq> date other \<or> region self \<noteq> region other then Inl IncompatibleMerge
      else if levels self = []
      then Inr \<lparr> date = date self, region = region self, levels = levels other \<rparr>
      else if levels other = []
      then Inr \<lparr> date = date self, region = region self, levels = levels self \<rparr>
      else
        (case assimilate_levels (levels self) (levels other)
                [0 ..< max (length (levels self)) (length (levels other))] [] of
           Inl e \<Rightarrow> Inl e
         | Inr ls \<Rightarrow> Inr \<lparr> date = date self, region = region self, levels = ls \<rparr>))"

subsection \<open>Dictionaries and the bind of the exception monad\<close>

fun bind_err :: "error + 'a \<Rightarrow> ('a \<Rightarrow> error + 'b) \<Rightarrow> error + 'b" where
  "bind_err (Inl e) f = Inl e"
| "bind_err (Inr x) f = f x"

text \<open>
  A Python \<^verbatim>\<open>dict\<close> (and an \<^verbatim>\<open>OrderedDict\<close>) that is iterated is an association list
  in insertion order: storing under a key that is present replaces the value in place.
\<close>

fun dict_setitem :: "('k \<times> 'v) list \<Rightarrow> 'k \<Rightarrow> 'v \<Rightarrow> ('k \<times> 'v) list" where
  "dict_setitem [] k v = [(k, v)]"
| "dict_setitem ((k', v') # d) k v =
     (if k' = k then (k, v) # d else (k', v') # dict_setitem d k v)"

fun dict_of_items :: "('k \<times> 'v) list \<Rightarrow> ('k \<times> 'v) list \<Rightarrow> ('k \<times> 'v) list" where
  "dict_of_items d [] = d"
| "dict_of_items d ((k, v) # kvs) = dict_of_items (dict_setitem d k v) kvs"

text \<open>\<^verbatim>\<open>json[key]\<close> on a payload dictionary that is only read.\<close>

definition json_getitem :: "(string \<rightharpoonup> 'v) \<Rightarrow> string \<Rightarrow> error + 'v" where
  "json_getitem json key = (case json key of None \<Rightarrow> Inl (KeyError key) | Some v \<Rightarrow> Inr v)"

subsection \<open>Dictionary forms and band labels\<close>

definition Data_to_dict :: "Data \<Rightarrow> (int \<times> int option) list" where
  "Data_to_dict self =
     [(0, perc00 self), (5, perc05 self), (25, perc25 self), (50, perc50 self),
      (75, perc75 self), (95, perc95 self), (100, perc100 self)]"

text \<open>\<^verbatim>\<open>Level.to_dict\<close>: \<^verbatim>\<open>d[attr] = obj.to_dict() if obj else None\<close> for every attribute.\<close>

definition Level_to_dict :: "Level \<Rightarrow> (string \<times> (int \<times> int option) list option) list" where
  "Level_to_dict self =
     map (\<lambda>attr. (attr, (case getattr self attr of
                            None \<Rightarrow> None
                          | Some obj \<Rightarrow> Some (Data_to_dict obj))))
       (map snd WEATHER_ATTRS)"

text \<open>\<^verbatim>\<open>str\<close> of an integer and of \<^verbatim>\<open>None\<close>.\<close>

fun str_nat :: "nat \<Rightarrow> string" where
  "str_nat n =
     (if n < 10 then [''0123456789'' ! n]
      else str_nat (n div 10) @ [''0123456789'' ! (n mod 10)])"

definition str_int :: "int option \<Rightarrow> string" where
  "str_int x =
     (case x of
        None \<Rightarrow> ''None''
      | Some n \<Rightarrow> (if n < 0 then ''-'' @ str_nat (nat (- n)) else str_nat (nat n)))"

text \<open>\<^verbatim>\<open>Level.get_name\<close>: \<^verbatim>\<open>str(self.floor) + (f"-{self.roof}" if self.roof else "")\<close>.\<close>

definition get_name :: "Level \<Rightarrow> string" where
  "get_name self =
     str_int (floor self) @ (if int_bool (roof self) then ''-'' @ str_int (roof self) else [])"

subsection \<open>Tabular export: the rows handed to the data frame\<close>

text \<open>
  \<^verbatim>\<open>to_frame\<close> first builds the dictionary \<^verbatim>\<open>levels\<close> (one entry per selected band) and
  then hands it to pandas. The embedding covers the construction of \<^verbatim>\<open>levels\<close>, which
  is where the elevation and band-index filters act; the pandas steps after it
  (transposition, naming, sorting and the display filters of \<^verbatim>\<open>Day.to_frame\<close>) are not
  modelled.

  The condition of the comprehension, with Python's precedence and short-circuit order:
  \<^verbatim>\<open>elevation is None and level_index is None
     or elevation and lvl.floor <= elevation and (not lvl.roof or elevation < lvl.roof)
     or lvl.index == level_index\<close>.
  Comparing \<^verbatim>\<open>None <= int\<close> raises \<^verbatim>\<open>TypeError\<close>; \<^verbatim>\<open>elevation < lvl.roof\<close> is only reached
  with a truthy roof.
\<close>

definition frame_filter :: "int option \<Rightarrow> int option \<Rightarrow> Level \<Rightarrow> error + bool" where
  "frame_filter elevation level_index lvl =
     (if elevation = None \<and> level_index = None then Inr True
      else if int_bool elevation then
        (case (floor lvl, elevation) of
           (Some f, Some e) \<Rightarrow>
             (if f \<le> e then
                (case roof lvl of
                   Some r \<Rightarrow>
                     (if r = 0 then Inr True
                      else if e < r then Inr True
                      else Inr (index lvl = level_index))
                 | None \<Rightarrow> Inr True)
              else Inr (index lvl = level_index))
         | _ \<Rightarrow> Inl TypeError)
      else Inr (index lvl = level_index))"

text \<open>The entry of one band: the percentiles of every filled slot, keyed by slot and percentile.\<close>

definition frame_row :: "Level \<Rightarrow> ((string \<times> int) \<times> int option) list" where
  "frame_row lvl =
     dict_of_items []
       (concat (map (\<lambda>(data_type, data).
                      (case data of
                         None \<Rightarrow> []
                       | Some d \<Rightarrow> map (\<lambda>(attr_name, attr). ((data_type, attr_name), attr)) d))
                  (Level_to_dict lvl)))"

text \<open>The bands of a list that pass the condition, in order; the first exception ends the scan.\<close>

fun frame_select :: "int option \<Rightarrow> int option \<Rightarrow> Level list \<Rightarrow> error + Level list" where
  "frame_select elevation level_index [] = Inr []"
| "frame_select elevation level_index (lvl # lvls) =
     bind_err (frame_filter elevation level_index lvl) (\<lambda>keep.
     bind_err (frame_select elevation level_index lvls) (\<lambda>rest.
     Inr (if keep then lvl # rest else rest)))"

text \<open>\<^verbatim>\<open>Day.to_frame\<close>, lines 307 to 318: the guard and the dictionary \<^verbatim>\<open>levels\<close>.\<close>

type_synonym frame_row = "((string \<times> int) \<times> int option) list"

definition Day_to_frame ::
  "Day \<Rightarrow> int option \<Rightarrow> int option \<Rightarrow> error + (string \<times> frame_row) list" where
  "Day_to_frame self elevation level_index =
     (if elevation \<noteq> None \<and> level_index \<noteq> None then Inl InvalidArgument
      else bind_err (frame_select elevation level_index (levels self)) (\<lambda>lvls.
           Inr (dict_of_items [] (map (\<lambda>lvl. (get_name lvl, frame_row lvl)) lvls))))"

subsection \<open>Container: the ordered mapping under Timeline and Aps\<close>

text \<open>
  Modelled from the spec: the class \<^verbatim>\<open>Container\<close> of \<^verbatim>\<open>misc.py\<close>, the base class of
  \<^verbatim>\<open>Timeline\<close> and \<^verbatim>\<open>Aps\<close>, is not among the source files. The specification
  (section 4.1) describes it as a container backed by an insertion-ordered mapping, here
  the association list \<^verbatim>\<open>_elems\<close>.
\<close>

type_synonym ('k, 'e) Container = "('k \<times> 'e) list"

text \<open>Modelled from the spec: \<^verbatim>\<open>Container()\<close>, which the specification constructs empty.\<close>

definition Container_init :: "('k, 'e) Container" where
  "Container_init = []"

text \<open>
  Modelled from the spec: \<^verbatim>\<open>Container.__setitem__\<close>, "inserts or replaces; no uniqueness
  constraint beyond one element per key".
\<close>

definition Container_setitem :: "('k, 'e) Container \<Rightarrow> 'k \<Rightarrow> 'e \<Rightarrow> ('k, 'e) Container" where
  "Container_setitem self key elem = dict_setitem self key elem"

text \<open>
  Modelled from the spec: \<^verbatim>\<open>Container.__iter__\<close>, "a lazy, restartable sequence of elements
  in current insertion order".
\<close>

definition Container_iter :: "('k, 'e) Container \<Rightarrow> 'e list" where
  "Container_iter self = map snd self"

text \<open>
  Modelled from the spec: the truthiness of a container. The specification makes
  presence "an entity-specific predicate meaning: holds at least one non-empty
  descendant", so a container is truthy when one of its elements is; the truthiness of
  the elements is a parameter. A container without elements is not truthy.
\<close>

definition Container_bool :: "('e \<Rightarrow> bool) \<Rightarrow> ('k, 'e) Container \<Rightarrow> bool" where
  "Container_bool elem_bool self = list_ex elem_bool (Container_iter self)"

text \<open>
  Modelled from the spec: \<^verbatim>\<open>Container._sort\<close>, "entries reordered by ascending key, using
  a stable sort".
\<close>

definition Container_sort :: "('k::linorder, 'e) Container \<Rightarrow> ('k, 'e) Container" where
  "Container_sort self = sort_key fst self"

text \<open>
  Modelled from the spec: \<^verbatim>\<open>Container._filter_empty\<close>, "only elements that are present";
  "empty elements are dropped".
\<close>

definition Container_filter_empty ::
  "('e \<Rightarrow> bool) \<Rightarrow> ('k, 'e) Container \<Rightarrow> ('k, 'e) Container" where
  "Container_filter_empty elem_bool self = filter (\<lambda>(k, e). elem_bool e) self"

subsection \<open>Timeline\<close>

type_synonym Timeline = "(date, Day) Container"

definition Timeline_bool :: "Timeline \<Rightarrow> bool" where
  "Timeline_bool self = Container_bool Day_bool self"

text \<open>
  \<^verbatim>\<open>Timeline.get_region\<close>: the guard \<^verbatim>\<open>if not self\<close>, then the region of
  \<^verbatim>\<open>next(iter(self))\<close>, the first element of the iteration.
\<close>

definition get_region :: "Timeline \<Rightarrow> error + SnowRegion" where
  "get_region self =
     (if \<not> Timeline_bool self then Inl EmptyContainerError
      else (case Container_iter self of
              [] \<Rightarrow> Inl StopIteration
            | day # _ \<Rightarrow> Inr (region day)))"

text \<open>
  \<^verbatim>\<open>Timeline.to_frame\<close>, lines 231 to 241: the dictionary \<^verbatim>\<open>levels\<close> over the truthy days
  of the iteration, keyed by date and band label, then \<^verbatim>\<open>self.get_region()\<close> for the name
  of the frame. There is no guard on the two filters here.
\<close>

fun Timeline_frame_items ::
  "int option \<Rightarrow> int option \<Rightarrow> Day list \<Rightarrow> error + ((date \<times> string) \<times> frame_row) list" where
  "Timeline_frame_items elevation level_index [] = Inr []"
| "Timeline_frame_items elevation level_index (day # days) =
     (if Day_bool day
      then bind_err (frame_select elevation level_index (levels day)) (\<lambda>lvls.
           bind_err (Timeline_frame_items elevation level_index days) (\<lambda>rest.
           Inr (map (\<lambda>lvl. ((date day, get_name lvl), frame_row lvl)) lvls @ rest)))
      else Timeline_frame_items elevation level_index days)"

definition Timeline_to_frame ::
  "Timeline \<Rightarrow> int option \<Rightarrow> int option
     \<Rightarrow> error + (SnowRegion \<times> ((date \<times> string) \<times> frame_row) list)" where
  "Timeline_to_frame self elevation level_index =
     bind_err (Timeline_frame_items elevation level_index (Container_iter self)) (\<lambda>items.
     bind_err (get_region self) (\<lambda>name.
     Inr (name, dict_of_items [] items)))"

subsection \<open>Aps\<close>

type_synonym Aps = "(SnowRegion, Timeline) Container"

text \<open>
  \<^verbatim>\<open>Aps.to_frame\<close>, lines 149 to 152: the dictionary given to \<^verbatim>\<open>pd.concat\<close>, over the truthy
  timelines of \<^verbatim>\<open>self._sort()._filter_empty()\<close>; the key is evaluated before the value.
\<close>

fun Aps_frame_items ::
  "int option \<Rightarrow> int option \<Rightarrow> Timeline list
     \<Rightarrow> error + (SnowRegion \<times> (SnowRegion \<times> ((date \<times> string) \<times> frame_row) list)) list" where
  "Aps_frame_items elevation level_index [] = Inr []"
| "Aps_frame_items elevation level_index (timeline # timelines) =
     (if Timeline_bool timeline
      then bind_err (get_region timeline) (\<lambda>key.
           bind_err (Timeline_to_frame timeline elevation level_index) (\<lambda>frame.
           bind_err (Aps_frame_items elevation level_index timelines) (\<lambda>rest.
           Inr ((key, frame) # rest))))
      else Aps_frame_items elevation level_index timelines)"

definition Aps_to_frame ::
  "Aps \<Rightarrow> int option \<Rightarrow> int option
     \<Rightarrow> error + (SnowRegion \<times> (SnowRegion \<times> ((date \<times> string) \<times> frame_row) list)) list" where
  "Aps_to_frame self elevation level_index =
     bind_err (Aps_frame_items elevation level_index
                 (Container_iter (Container_filter_empty Timeline_bool (Container_sort self))))
       (\<lambda>items. Inr (dict_of_items [] items))"

subsection \<open>Deserialization\<close>

text \<open>
  The payload is typed as the aliases \<^verbatim>\<open>ApsJsonData\<close>, \<^verbatim>\<open>ApsJsonRegion\<close>, \<^verbatim>\<open>ApsJsonDay\<close>
  and \<^verbatim>\<open>ApsJsonFull\<close> declare it. An elevation entry is a dictionary from wire field to
  number or \<^verbatim>\<open>null\<close>; in the three outer dictionaries a field is \<open>None\<close> when the key
  is missing, and reading it raises \<^verbatim>\<open>KeyError\<close>.
\<close>

type_synonym ApsJsonData = "string \<rightharpoonup> int option"

record ApsJsonRegion =
  RegionId :: "string option"
  ElevationData :: "ApsJsonData list option"

record ApsJsonDay =
  FormattedDate :: "string option"
  Regions :: "ApsJsonRegion list option"

record ApsJsonFull =
  TimeLine :: "ApsJsonDay list option"

definition field_getitem :: "'v option \<Rightarrow> string \<Rightarrow> error + 'v" where
  "field_getitem field key = (case field of None \<Rightarrow> Inl (KeyError key) | Some v \<Rightarrow> Inr v)"

text \<open>\<^verbatim>\<open>Data.deserialize\<close>: seven reads of the payload, in the order of the assignments.\<close>

definition Data_deserialize :: "weather \<Rightarrow> ApsJsonData \<Rightarrow> error + Data" where
  "Data_deserialize c json =
     bind_err (json_getitem json ''Minimum'') (\<lambda>v00.
     bind_err (json_getitem json ''Perc05'') (\<lambda>v05.
     bind_err (json_getitem json ''FirstQuartile'') (\<lambda>v25.
     bind_err (json_getitem json ''Median'') (\<lambda>v50.
     bind_err (json_getitem json ''ThirdQuartile'') (\<lambda>v75.
     bind_err (json_getitem json ''Perc05'') (\<lambda>v95.
     bind_err (json_getitem json ''Maximum'') (\<lambda>v100.
     Inr \<lparr> cls = c, perc00 = v00, perc05 = v05, perc25 = v25, perc50 = v50,
           perc75 = v75, perc95 = v95, perc100 = v100 \<rparr>)))))))"

text \<open>
  The \<^verbatim>\<open>data_type\<close> argument of \<^verbatim>\<open>deserialize\<close>: an object that is not a class, the class
  \<^verbatim>\<open>Data\<close> itself, one of its seven subclasses in \<^verbatim>\<open>WEATHER_ATTRS\<close>, another subclass of
  \<^verbatim>\<open>Data\<close>, or a class that does not derive from \<^verbatim>\<open>Data\<close>.
\<close>

datatype data_type = NotAType | DataBase | Weather weather | OtherDataSubclass | OtherType

fun weather_attr :: "weather \<Rightarrow> (weather \<times> string) list \<Rightarrow> string option" where
  "weather_attr w [] = None"
| "weather_attr w ((w', a) # was) = (if w' = w then Some a else weather_attr w was)"

definition Level_deserialize :: "ApsJsonData \<Rightarrow> data_type \<Rightarrow> error + Level" where
  "Level_deserialize json dtype =
     (case dtype of
        NotAType \<Rightarrow>
          Inl (ValueError ''data_type should be a type (uninstatiated class), not an object.'')
      | DataBase \<Rightarrow> Inl (ValueError ''data_type must be a subclase of aps.Data'')
      | OtherType \<Rightarrow> Inl (ValueError ''data_type must be a subclass of aps.Data'')
      | _ \<Rightarrow>
          bind_err (json_getitem json ''ElevationBottom'') (\<lambda>bottom.
          bind_err (json_getitem json ''ElevationTop'') (\<lambda>top.
          bind_err (json_getitem json ''ElevationBand'') (\<lambda>band.
          (let level = Level_init\<lparr> floor := bottom,
                                    roof := (if int_bool top then top else None),
                                    index := band \<rparr>
           in case dtype of
                Weather w \<Rightarrow>
                  (case weather_attr w WEATHER_ATTRS of
                     Some attr \<Rightarrow>
                       bind_err (Data_deserialize w json) (\<lambda>data.
                       Inr (setattr level attr (Some data)))
                   | None \<Rightarrow> Inl (ValueError ''Unknown data_type''))
              | _ \<Rightarrow> Inl (ValueError ''Unknown data_type''))))))"

fun Level_deserialize_all :: "ApsJsonData list \<Rightarrow> data_type \<Rightarrow> error + Level list" where
  "Level_deserialize_all [] dtype = Inr []"
| "Level_deserialize_all (level # rest) dtype =
     bind_err (Level_deserialize level dtype) (\<lambda>l.
     bind_err (Level_deserialize_all rest dtype) (\<lambda>ls.
     Inr (l # ls)))"

text \<open>
  \<^verbatim>\<open>Day.deserialize\<close>. Two library calls are parameters: \<open>fromisoformat\<close> stands for
  \<^verbatim>\<open>dt.date.fromisoformat\<close>, and \<open>snow_region\<close> for \<^verbatim>\<open>SnowRegion(int(...))\<close>, the lookup
  in the region table of \<^verbatim>\<open>region.py\<close>.
\<close>

definition Day_deserialize ::
  "(string \<Rightarrow> error + date) \<Rightarrow> (string \<Rightarrow> error + SnowRegion)
     \<Rightarrow> ApsJsonDay \<Rightarrow> data_type \<Rightarrow> error + Day" where
  "Day_deserialize fromisoformat snow_region json dtype =
     bind_err (field_getitem (Regions json) ''Regions'') (\<lambda>region_list.
     (case region_list of
        [] \<Rightarrow> Inl (ValueError ''No regions in timeline'')
      | region0 # _ \<Rightarrow>
          bind_err (field_getitem (FormattedDate json) ''FormattedDate'') (\<lambda>formatted.
          bind_err (fromisoformat (take 10 formatted)) (\<lambda>d.
          bind_err (field_getitem (RegionId region0) ''RegionId'') (\<lambda>rid.
          bind_err (snow_region rid) (\<lambda>r.
          bind_err (field_getitem (ElevationData region0) ''ElevationData'') (\<lambda>elevation_list.
          bind_err (Level_deserialize_all elevation_list dtype) (\<lambda>ls.
          Inr \<lparr> date = d, region = r, levels = ls \<rparr>))))))))"

text \<open>\<^verbatim>\<open>Timeline.deserialize\<close>: the loop over \<^verbatim>\<open>json["TimeLine"]\<close>, storing each day under its date.\<close>

fun Timeline_deserialize_days ::
  "(string \<Rightarrow> error + date) \<Rightarrow> (string \<Rightarrow> error + SnowRegion)
     \<Rightarrow> ApsJsonDay list \<Rightarrow> data_type \<Rightarrow> Timeline \<Rightarrow> error + Timeline" where
  "Timeline_deserialize_days fromisoformat snow_region [] dtype timeline = Inr timeline"
| "Timeline_deserialize_days fromisoformat snow_region (day # days) dtype timeline =
     bind_err (field_getitem (FormattedDate day) ''FormattedDate'') (\<lambda>formatted.
     bind_err (fromisoformat (take 10 formatted)) (\<lambda>d.
     bind_err (Day_deserialize fromisoformat snow_region day dtype) (\<lambda>elem.
     Timeline_deserialize_days fromisoformat snow_region days dtype
       (Container_setitem timeline d elem))))"

definition Timeline_deserialize ::
  "(string \<Rightarrow> error + date) \<Rightarrow> (string \<Rightarrow> error + SnowRegion)
     \<Rightarrow> ApsJsonFull \<Rightarrow> data_type \<Rightarrow> error + Timeline" where
  "Timeline_deserialize fromisoformat snow_region json dtype =
     bind_err (field_getitem (TimeLine json) ''TimeLine'') (\<lambda>days.
     Timeline_deserialize_days fromisoformat snow_region days dtype Container_init)"

text \<open>\<^verbatim>\<open>Aps.deserialize\<close>: the timeline is stored under the region it derives.\<close>

definition Aps_deserialize ::
  "(string \<Rightarrow> error + date) \<Rightarrow> (string \<Rightarrow> error + SnowRegion)
     \<Rightarrow> ApsJsonFull \<Rightarrow> data_type \<Rightarrow> error + Aps" where
  "Aps_deserialize fromisoformat snow_region json dtype =
     bind_err (Timeline_deserialize fromisoformat snow_region json dtype) (\<lambda>timeline.
     bind_err (get_region timeline) (\<lambda>key.
     Inr (Container_setitem Container_init key timeline)))"

subsection \<open>Notions of the specification and sample values\<close>

text \<open>
  The pairing the specification describes for \<^verbatim>\<open>Day.assimilate\<close>: position \<open>i\<close> merges
  \<open>a[min(i, len(a)-1)]\<close> with \<open>b[min(i, len(b)-1)]\<close>.
\<close>

definition paired_merge :: "Level list \<Rightarrow> Level list \<Rightarrow> nat \<Rightarrow> error + Level" where
  "paired_merge a b i = Level_assimilate (a ! min i (length a - 1)) (b ! min i (length b - 1))"


text \<open>The containment of an elevation in the vertical range of a band, as the specification words it.\<close>

definition in_range :: "int \<Rightarrow> Level \<Rightarrow> bool" where
  "in_range e lvl =
     (case floor lvl of
        None \<Rightarrow> False
      | Some f \<Rightarrow> f \<le> e \<and> (case roof lvl of None \<Rightarrow> True | Some r \<Rightarrow> e < r))"

text \<open>The pair of operands on which \<^verbatim>\<open>max_or_not_none\<close> is not symmetric: \<^verbatim>\<open>0\<close> and \<^verbatim>\<open>None\<close>.\<close>

definition zero_and_none :: "int option \<Rightarrow> int option \<Rightarrow> bool" where
  "zero_and_none s t = ((s = Some 0 \<and> t = None) \<or> (s = None \<and> t = Some 0))"

text \<open>Sample measurements, bands, days and timelines for the concrete evaluations below.\<close>

definition sample_data :: "weather \<Rightarrow> Data" where
  "sample_data w = \<lparr> cls = w, perc00 = Some 1, perc05 = Some 2, perc25 = Some 3,
     perc50 = Some 4, perc75 = Some 5, perc95 = Some 2, perc100 = Some 7 \<rparr>"

definition temp_band :: "int option \<Rightarrow> int option \<Rightarrow> int option \<Rightarrow> Level" where
  "temp_band f r i =
     Level_init\<lparr> floor := f, roof := r, index := i, temp := Some (sample_data Temp) \<rparr>"

definition wind_band :: "int option \<Rightarrow> int option \<Rightarrow> int option \<Rightarrow> Level" where
  "wind_band f r i =
     Level_init\<lparr> floor := f, roof := r, index := i, wind := Some (sample_data Wind) \<rparr>"

definition sample_day :: "date \<Rightarrow> SnowRegion \<Rightarrow> Level list \<Rightarrow> Day" where
  "sample_day d r ls = \<lparr> date = d, region = r, levels = ls \<rparr>"

definition sample_json :: ApsJsonData where
  "sample_json =
     [''ElevationBottom'' \<mapsto> Some 300, ''ElevationTop'' \<mapsto> Some 600, ''ElevationBand'' \<mapsto> Some 1,
      ''Minimum'' \<mapsto> Some 100, ''Perc05'' \<mapsto> Some 105, ''FirstQuartile'' \<mapsto> Some 110,
      ''Median'' \<mapsto> Some 120, ''ThirdQuartile'' \<mapsto> Some 130, ''Perc95'' \<mapsto> Some 195,
      ''Maximum'' \<mapsto> Some 200]"

section \<open>Properties of the merge\<close>

subsection \<open>The slot loop of Level.assimilate\<close>






subsection \<open>The band loop of Day.assimilate\<close>



lemma assimilate_levels_ok:
  "assimilate_levels ss os is acc = Inr ls \<Longrightarrow>
     length ls = length acc + length is \<and> take (length acc) ls = acc \<and>
     (\<forall>j < length is. paired_merge ss os (is ! j) = Inr (ls ! (length acc + j)))"
proof (induction "is" arbitrary: acc)
  case Nil
  then show ?case by simp
next
  case (Cons i "is")
  from Cons.prems obtain l where l: "paired_merge ss os i = Inr l"
    and r: "assimilate_levels ss os is (acc @ [l]) = Inr ls"
    by (auto simp: Let_def paired_merge_def split: sum.splits)
  from Cons.IH[OF r] have len: "length ls = length acc + 1 + length is"
    and tk: "take (length acc + 1) ls = acc @ [l]"
    and rest: "\<forall>j < length is. paired_merge ss os (is ! j) = Inr (ls ! (length acc + 1 + j))"
    by auto
  have tk': "take (length acc) ls = acc"
    using tk by (metis append_eq_conv_conj le_add1 min_def take_take Suc_eq_plus1)
  have "ls ! length acc = l" using tk len
    by (metis Suc_eq_plus1 lessI nth_append_length nth_take)
  with l rest len tk' show ?case
    by (auto simp: nth_Cons split: nat.splits)
qed

lemma assimilate_levels_succeeds:
  "\<forall>i \<in> set is. \<exists>l. paired_merge ss os i = Inr l
    \<Longrightarrow> \<exists>ls. assimilate_levels ss os is acc = Inr ls"
  by (induction "is" arbitrary: acc) (auto simp: Let_def paired_merge_def split: sum.splits)

lemmas sample_defs =
  sample_data_def temp_band_def wind_band_def sample_day_def Level_init_def

lemmas merge_defs =
  Day_assimilate_def Level_assimilate_def WEATHER_ATTRS_def max_or_not_none_def
  ConflictingData_def IncompatibleMerge_def paired_merge_def

text \<open>
  C5. Two days whose dates differ or whose regions differ do not merge:
  \<^verbatim>\<open>Day.assimilate\<close> raises the \<^verbatim>\<open>ValueError\<close> "Incompatible days" before anything
  is built, so the result is the error alone and no day.
\<close>

theorem assimilate_incompatible:
  "date a \<noteq> date b \<or> region a \<noteq> region b \<Longrightarrow> Day_assimilate a b = Inl IncompatibleMerge"
  by (simp add: Day_assimilate_def)

theorem assimilate_incompatible_witness:
  "date (sample_day (2024, 1, 15) 3003 [temp_band (Some 0) None (Some 1)])
     \<noteq> date (sample_day (2024, 1, 16) 3003 [wind_band (Some 0) None (Some 1)])
   \<and> Day_assimilate (sample_day (2024, 1, 15) 3003 [temp_band (Some 0) None (Some 1)])
        (sample_day (2024, 1, 16) 3003 [wind_band (Some 0) None (Some 1)])
      = Inl (ValueError ''Incompatible days'')
   \<and> Day_assimilate (sample_day (2024, 1, 15) 3003 [temp_band (Some 0) None (Some 1)])
        (sample_day (2024, 1, 15) 3004 [wind_band (Some 0) None (Some 1)])
      = Inl (ValueError ''Incompatible days'')"
  using
    assimilate_incompatible [of "sample_day (2024, 1, 15) 3003 [temp_band (Some 0) None (Some 1)]"
      "sample_day (2024, 1, 16) 3003 [wind_band (Some 0) None (Some 1)]"]
    assimilate_incompatible [of "sample_day (2024, 1, 15) 3003 [temp_band (Some 0) None (Some 1)]"
      "sample_day (2024, 1, 15) 3004 [wind_band (Some 0) None (Some 1)]"]
  by (simp add: sample_day_def IncompatibleMerge_def)



text \<open>
  C2. Let two days have the same date and region. If either side has no bands, the
  merged day carries the band list of the other side unchanged. If both sides have
  bands, a merge that succeeds has \<open>max (len a) (len b)\<close> bands, and band \<open>i\<close> is the
  merge of \<open>a[min(i, len a - 1)]\<close> with \<open>b[min(i, len b - 1)]\<close>, so the last band of the
  shorter list is paired with every remaining band of the longer one; the merge
  succeeds whenever each of these pairs merges.
\<close>

theorem assimilate_pairing:
  assumes "date a = date b" and "region a = region b"
  shows
    "(levels a = [] \<longrightarrow>
        Day_assimilate a b = Inr \<lparr> date = date a, region = region a, levels = levels b \<rparr>)
     \<and> (levels b = [] \<longrightarrow>
        Day_assimilate a b = Inr \<lparr> date = date a, region = region a, levels = levels a \<rparr>)
     \<and> (levels a \<noteq> [] \<and> levels b \<noteq> [] \<longrightarrow>
          (\<forall>d. Day_assimilate a b = Inr d \<longrightarrow>
                date d = date a \<and> region d = region a
                \<and> length (levels d) = max (length (levels a)) (length (levels b))
                \<and> (\<forall>i < max (length (levels a)) (length (levels b)).
                      paired_merge (levels a) (levels b) i = Inr (levels d ! i)))
          \<and> ((\<forall>i < max (length (levels a)) (length (levels b)).
                  \<exists>l. paired_merge (levels a) (levels b) i = Inr l)
               \<longrightarrow> (\<exists>d. Day_assimilate a b = Inr d)))"
proof (intro conjI impI allI)
  assume "levels a = []"
  then show "Day_assimilate a b = Inr \<lparr> date = date a, region = region a, levels = levels b \<rparr>"
    using assms by (simp add: Day_assimilate_def)
next
  assume "levels b = []"
  then show "Day_assimilate a b = Inr \<lparr> date = date a, region = region a, levels = levels a \<rparr>"
    using assms by (simp add: Day_assimilate_def)
next
  fix d
  assume ne: "levels a \<noteq> [] \<and> levels b \<noteq> []" and ok: "Day_assimilate a b = Inr d"
  let ?n = "max (length (levels a)) (length (levels b))"
  from ne ok assms obtain ls where
    ls: "assimilate_levels (levels a) (levels b) [0 ..< ?n] [] = Inr ls"
    and d: "d = \<lparr> date = date a, region = region a, levels = ls \<rparr>"
    by (auto simp: Day_assimilate_def split: sum.splits)
  from assimilate_levels_ok[OF ls]
  have len: "length ls = ?n"
    and each: "\<forall>j < ?n. paired_merge (levels a) (levels b) ([0 ..< ?n] ! j) = Inr (ls ! j)"
    by simp_all
  show "date d = date a" and "region d = region a" using d by simp_all
  show "length (levels d) = ?n" using d len by simp
  fix i assume "i < ?n"
  with each show "paired_merge (levels a) (levels b) i = Inr (levels d ! i)"
    using d by simp
next
  assume ne: "levels a \<noteq> [] \<and> levels b \<noteq> []"
    and all: "\<forall>i < max (length (levels a)) (length (levels b)).
                \<exists>l. paired_merge (levels a) (levels b) i = Inr l"
  let ?n = "max (length (levels a)) (length (levels b))"
  from all have "\<forall>i \<in> set [0 ..< ?n]. \<exists>l. paired_merge (levels a) (levels b) i = Inr l"
    by simp
  from assimilate_levels_succeeds[OF this]
  obtain ls where "assimilate_levels (levels a) (levels b) [0 ..< ?n] [] = Inr ls" by blast
  with ne assms show "\<exists>d. Day_assimilate a b = Inr d"
    by (simp add: Day_assimilate_def)
qed

theorem assimilate_pairing_witness:
  "Day_assimilate
     (sample_day (2024, 1, 15) 3003 [temp_band (Some 0) (Some 500) (Some 1)])
     (sample_day (2024, 1, 15) 3003
        [wind_band (Some 0) (Some 500) (Some 1), wind_band (Some 500) None (Some 2)])
   = Inr (sample_day (2024, 1, 15) 3003
        [Level_init\<lparr> floor := Some 0, roof := Some 500, index := Some 1,
            temp := Some (sample_data Temp), wind := Some (sample_data Wind) \<rparr>,
         Level_init\<lparr> floor := Some 500, roof := Some 500, index := Some 2,
            temp := Some (sample_data Temp), wind := Some (sample_data Wind) \<rparr>])
   \<and> paired_merge [temp_band (Some 0) (Some 500) (Some 1)]
        [wind_band (Some 0) (Some 500) (Some 1), wind_band (Some 500) None (Some 2)] 1
      = Inr (Level_init\<lparr> floor := Some 500, roof := Some 500, index := Some 2,
            temp := Some (sample_data Temp), wind := Some (sample_data Wind) \<rparr>)
   \<and> Day_assimilate (sample_day (2024, 1, 15) 3003 [])
        (sample_day (2024, 1, 15) 3003 [wind_band (Some 0) (Some 500) (Some 1)])
      = Inr (sample_day (2024, 1, 15) 3003 [wind_band (Some 0) (Some 500) (Some 1)])"
  using
    assimilate_pairing [of
      "sample_day (2024, 1, 15) 3003 [temp_band (Some 0) (Some 500) (Some 1)]"
      "sample_day (2024, 1, 15) 3003
        [wind_band (Some 0) (Some 500) (Some 1), wind_band (Some 500) None (Some 2)]"]
    assimilate_pairing [of
      "sample_day (2024, 1, 15) 3003 []"
      "sample_day (2024, 1, 15) 3003 [wind_band (Some 0) (Some 500) (Some 1)]"]
  by (simp add: sample_defs merge_defs)

subsection \<open>Where the merge is symmetric\<close>

text \<open>
  The helper \<^verbatim>\<open>max_or_not_none\<close> by cases: the larger value when both are non-zero
  integers; otherwise the left operand when it is a non-zero integer, and the right
  operand when it is not.
\<close>

lemma max_or_not_none_cases:
  "max_or_not_none s t =
     (case (s, t) of
        (Some a, Some b) \<Rightarrow> (if a \<noteq> 0 \<and> b \<noteq> 0 then Some (max a b)
                              else if a \<noteq> 0 then Some a else Some b)
      | (Some a, None) \<Rightarrow> (if a \<noteq> 0 then Some a else None)
      | (None, _) \<Rightarrow> t)"
  by (auto simp: max_or_not_none_def split: option.splits)

text \<open>It is symmetric except when one operand is \<^verbatim>\<open>0\<close> and the other \<^verbatim>\<open>None\<close>.\<close>

lemma max_or_not_none_commute:
  "\<not> zero_and_none s t \<Longrightarrow> max_or_not_none s t = max_or_not_none t s"
  by (cases s; cases t) (auto simp: max_or_not_none_def zero_and_none_def)

lemma max_or_not_none_not_commute:
  "zero_and_none s t \<Longrightarrow> max_or_not_none s t \<noteq> max_or_not_none t s"
  by (auto simp: max_or_not_none_def zero_and_none_def)

text \<open>The slot loop is symmetric in the two bands, in its results and in its failures.\<close>

lemma assimilate_attrs_commute:
  "assimilate_attrs x y attrs lvl = assimilate_attrs y x attrs lvl"
proof (induction attrs arbitrary: lvl)
  case Nil
  then show ?case by simp
next
  case (Cons a attrs)
  have "Data_bool (getattr x a) \<noteq> Data_bool (getattr y a)
        \<Longrightarrow> Data_or (getattr x a) (getattr y a) = Data_or (getattr y a) (getattr x a)"
    by (cases "getattr x a"; cases "getattr y a") simp_all
  with Cons.IH show ?case
    by (auto simp add: Let_def simp del: getattr.simps setattr.simps Data_or.simps)
qed

lemma Level_assimilate_commute:
  assumes "\<not> zero_and_none (floor x) (floor y)"
    and "\<not> zero_and_none (roof x) (roof y)"
    and "\<not> zero_and_none (index x) (index y)"
  shows "Level_assimilate x y = Level_assimilate y x"
proof -
  note floors = max_or_not_none_commute [OF assms(1)]
    and roofs = max_or_not_none_commute [OF assms(2)]
    and indices = max_or_not_none_commute [OF assms(3)]
  show ?thesis
    unfolding Level_assimilate_def
    by (simp only: floors roofs indices assimilate_attrs_commute [of x y])
qed

lemma assimilate_levels_commute:
  "\<forall>i \<in> set is. paired_merge ss os i = paired_merge os ss i
    \<Longrightarrow> assimilate_levels ss os is acc = assimilate_levels os ss is acc"
  by (induction "is" arbitrary: acc) (auto simp: Let_def paired_merge_def split: sum.splits)

text \<open>
  So the merge of two days is symmetric when no numeric field is \<^verbatim>\<open>0\<close> in a band of one
  day and \<^verbatim>\<open>None\<close> in a band of the other.
\<close>

lemma Day_assimilate_commute:
  assumes "\<forall>x \<in> set (levels a). \<forall>y \<in> set (levels b).
             \<not> zero_and_none (floor x) (floor y) \<and> \<not> zero_and_none (roof x) (roof y)
             \<and> \<not> zero_and_none (index x) (index y)"
  shows "Day_assimilate a b = Day_assimilate b a"
proof (cases "levels a = [] \<or> levels b = [] \<or> date a \<noteq> date b \<or> region a \<noteq> region b")
  case True
  then show ?thesis by (auto simp: Day_assimilate_def)
next
  case False
  let ?n = "max (length (levels a)) (length (levels b))"
  have "paired_merge (levels a) (levels b) i = paired_merge (levels b) (levels a) i" for i
  proof -
    have "min i (length (levels a) - 1) < length (levels a)"
      and "min i (length (levels b) - 1) < length (levels b)"
    proof -
      have "0 < length (levels a)" and "0 < length (levels b)" using False by simp_all
      then show "min i (length (levels a) - 1) < length (levels a)"
        and "min i (length (levels b) - 1) < length (levels b)"
        by linarith+
    qed
    then have "levels a ! min i (length (levels a) - 1) \<in> set (levels a)"
      and "levels b ! min i (length (levels b) - 1) \<in> set (levels b)"
      by (simp_all only: nth_mem)
    with assms show ?thesis
      unfolding paired_merge_def by (intro Level_assimilate_commute) blast+
  qed
  then have "assimilate_levels (levels a) (levels b) [0 ..< ?n] []
             = assimilate_levels (levels b) (levels a) [0 ..< ?n] []"
    by (intro assimilate_levels_commute) simp
  moreover from False have "date a = date b" and "region a = region b"
    and "levels a \<noteq> []" and "levels b \<noteq> []" by simp_all
  ultimately show ?thesis
    by (simp add: Day_assimilate_def max.commute split: sum.splits)
qed

text \<open>
  C4. The helper \<^verbatim>\<open>max_or_not_none\<close> tests its operands for truthiness, and \<^verbatim>\<open>0\<close> is
  falsy: with \<^verbatim>\<open>0\<close> on the receiving side and nothing on the other side it returns
  \<^verbatim>\<open>0 or None\<close>, which is \<^verbatim>\<open>None\<close>. Merging a band with floor 0 and index 0 into a band
  that has neither loses both values; the other way round they are kept.
\<close>

theorem max_or_not_none_zero:
  "max_or_not_none (Some 0) None = None
   \<and> max_or_not_none None (Some 0) = Some 0
   \<and> Level_assimilate (temp_band (Some 0) (Some 500) (Some 0)) (wind_band None None None)
      = Inr (Level_init\<lparr> floor := None, roof := Some 500, index := None,
               temp := Some (sample_data Temp), wind := Some (sample_data Wind) \<rparr>)"
  by (simp add: sample_defs merge_defs)

text \<open>
  C3. The merge of two bands with disjoint slots depends on the order when a numeric
  field is \<^verbatim>\<open>0\<close> on one side and absent on the other: the floor of the merged band is
  \<^verbatim>\<open>None\<close> one way round and \<^verbatim>\<open>0\<close> the other way round. The same holds for the two
  days that hold these bands.
\<close>

theorem assimilate_not_commutative:
  "Level_assimilate (temp_band (Some 0) (Some 500) (Some 1)) (wind_band None (Some 500) (Some 1))
     = Inr (Level_init\<lparr> floor := None, roof := Some 500, index := Some 1,
              temp := Some (sample_data Temp), wind := Some (sample_data Wind) \<rparr>)
   \<and> Level_assimilate (wind_band None (Some 500) (Some 1)) (temp_band (Some 0) (Some 500) (Some 1))
     = Inr (Level_init\<lparr> floor := Some 0, roof := Some 500, index := Some 1,
              temp := Some (sample_data Temp), wind := Some (sample_data Wind) \<rparr>)
   \<and> Day_assimilate
        (sample_day (2024, 1, 15) 3003 [temp_band (Some 0) (Some 500) (Some 1)])
        (sample_day (2024, 1, 15) 3003 [wind_band None (Some 500) (Some 1)])
     = Inr (sample_day (2024, 1, 15) 3003
         [Level_init\<lparr> floor := None, roof := Some 500, index := Some 1,
              temp := Some (sample_data Temp), wind := Some (sample_data Wind) \<rparr>])
   \<and> Day_assimilate
        (sample_day (2024, 1, 15) 3003 [wind_band None (Some 500) (Some 1)])
        (sample_day (2024, 1, 15) 3003 [temp_band (Some 0) (Some 500) (Some 1)])
     = Inr (sample_day (2024, 1, 15) 3003
         [Level_init\<lparr> floor := Some 0, roof := Some 500, index := Some 1,
              temp := Some (sample_data Temp), wind := Some (sample_data Wind) \<rparr>])"
  by (simp add: sample_defs merge_defs)

theorem assimilate_not_commutative_witness:
  "Level_assimilate (temp_band (Some 0) (Some 500) (Some 1)) (wind_band None (Some 500) (Some 1))
     \<noteq> Level_assimilate (wind_band None (Some 500) (Some 1)) (temp_band (Some 0) (Some 500) (Some 1))
   \<and> Day_assimilate
        (sample_day (2024, 1, 15) 3003 [temp_band (Some 0) (Some 500) (Some 1)])
        (sample_day (2024, 1, 15) 3003 [wind_band None (Some 500) (Some 1)])
     \<noteq> Day_assimilate
        (sample_day (2024, 1, 15) 3003 [wind_band None (Some 500) (Some 1)])
        (sample_day (2024, 1, 15) 3003 [temp_band (Some 0) (Some 500) (Some 1)])"
  using assimilate_not_commutative by (simp add: sample_defs)

section \<open>Properties of the tabular export\<close>

lemmas frame_defs =
  Day_to_frame_def Timeline_to_frame_def Aps_to_frame_def frame_filter_def get_name_def
  str_int_def get_region_def Timeline_bool_def Container_bool_def Container_iter_def
  Container_sort_def Container_filter_empty_def Day_bool_def Level_bool_def
  WEATHER_ATTRS_def in_range_def InvalidArgument_def EmptyContainerError_def

text \<open>
  With a non-zero elevation and no band index, a band whose floor and index are set is
  selected exactly when the elevation lies in its range; a roof of \<^verbatim>\<open>0\<close> counts as no roof.
\<close>

lemma frame_filter_elevation:
  assumes "e \<noteq> 0" and "floor lvl = Some f" and "index lvl \<noteq> None"
  shows "frame_filter (Some e) None lvl =
           Inr (f \<le> e \<and> (case roof lvl of None \<Rightarrow> True | Some r \<Rightarrow> r = 0 \<or> e < r))"
  using assms by (auto simp: frame_filter_def split: option.splits)

text \<open>With elevation \<^verbatim>\<open>0\<close> and no band index, a band whose index is set is never selected.\<close>

lemma frame_filter_zero:
  "index lvl \<noteq> None \<Longrightarrow> frame_filter (Some 0) None lvl = Inr False"
  by (simp add: frame_filter_def)

text \<open>So a day whose bands all carry an index has no band selected at elevation \<^verbatim>\<open>0\<close>.\<close>

lemma frame_select_zero:
  "\<forall>lvl \<in> set lvls. index lvl \<noteq> None \<Longrightarrow> frame_select (Some 0) None lvls = Inr []"
  by (induction lvls) (simp_all add: frame_filter_zero)

lemma Day_to_frame_zero:
  "\<forall>lvl \<in> set (levels d). index lvl \<noteq> None \<Longrightarrow> Day_to_frame d (Some 0) None = Inr []"
  by (simp add: Day_to_frame_def frame_select_zero)

text \<open>
  The only exception of the band filter is the \<^verbatim>\<open>TypeError\<close> of a comparison with
  \<^verbatim>\<open>None\<close>, and the exceptions of \<^verbatim>\<open>get_region\<close> are its own: the exports of a timeline and
  of a data set never raise the \<^verbatim>\<open>ValueError\<close> of the guard of \<^verbatim>\<open>Day.to_frame\<close>.
\<close>

lemma frame_filter_error: "frame_filter elevation level_index lvl = Inl x \<Longrightarrow> x = TypeError"
  by (auto simp: frame_filter_def split: if_splits option.splits)

lemma frame_select_error: "frame_select elevation level_index lvls = Inl x \<Longrightarrow> x = TypeError"
proof (induction lvls arbitrary: x)
  case Nil
  then show ?case by simp
next
  case (Cons lvl lvls)
  show ?case
  proof (cases "frame_filter elevation level_index lvl")
    case (Inl e)
    with Cons.prems frame_filter_error show ?thesis by auto
  next
    case (Inr keep)
    with Cons show ?thesis
      by (cases "frame_select elevation level_index lvls") auto
  qed
qed

lemma Timeline_frame_items_error:
  "Timeline_frame_items elevation level_index days = Inl x \<Longrightarrow> x = TypeError"
proof (induction days arbitrary: x)
  case Nil
  then show ?case by simp
next
  case (Cons day days)
  show ?case
  proof (cases "Day_bool day")
    case False
    with Cons show ?thesis by simp
  next
    case True
    show ?thesis
    proof (cases "frame_select elevation level_index (levels day)")
      case (Inl e)
      with True Cons.prems frame_select_error show ?thesis by auto
    next
      case (Inr lvls)
      with True Cons show ?thesis
        by (cases "Timeline_frame_items elevation level_index days") auto
    qed
  qed
qed

lemma get_region_error:
  "get_region t = Inl x \<Longrightarrow> x = EmptyContainerError \<or> x = StopIteration"
  by (auto simp: get_region_def split: if_splits list.splits)

lemma Timeline_to_frame_error:
  "Timeline_to_frame t elevation level_index = Inl x
    \<Longrightarrow> x = TypeError \<or> x = EmptyContainerError \<or> x = StopIteration"
proof -
  assume a: "Timeline_to_frame t elevation level_index = Inl x"
  show ?thesis
  proof (cases "Timeline_frame_items elevation level_index (Container_iter t)")
    case (Inl e)
    with a Timeline_frame_items_error show ?thesis
      by (auto simp: Timeline_to_frame_def)
  next
    case (Inr items)
    with a get_region_error show ?thesis
      by (cases "get_region t") (auto simp: Timeline_to_frame_def)
  qed
qed

lemma Timeline_to_frame_no_guard:
  "Timeline_to_frame t elevation level_index \<noteq> Inl InvalidArgument"
  using Timeline_to_frame_error [of t elevation level_index InvalidArgument]
  by (auto simp: InvalidArgument_def EmptyContainerError_def)

lemma Aps_frame_items_error:
  "Aps_frame_items elevation level_index timelines = Inl x
    \<Longrightarrow> x = TypeError \<or> x = EmptyContainerError \<or> x = StopIteration"
proof (induction timelines arbitrary: x)
  case Nil
  then show ?case by simp
next
  case (Cons t ts)
  show ?case
  proof (cases "Timeline_bool t")
    case False
    with Cons show ?thesis by simp
  next
    case True
    show ?thesis
    proof (cases "get_region t")
      case (Inl e)
      with True Cons.prems get_region_error show ?thesis by auto
    next
      case key: (Inr k)
      show ?thesis
      proof (cases "Timeline_to_frame t elevation level_index")
        case (Inl e)
        with True key Cons.prems Timeline_to_frame_error show ?thesis by auto
      next
        case (Inr frame)
        with True key Cons show ?thesis
          by (cases "Aps_frame_items elevation level_index ts") auto
      qed
    qed
  qed
qed

lemma Aps_to_frame_no_guard:
  "Aps_to_frame a elevation level_index \<noteq> Inl InvalidArgument"
proof
  assume e: "Aps_to_frame a elevation level_index = Inl InvalidArgument"
  let ?ts = "Container_iter (Container_filter_empty Timeline_bool (Container_sort a))"
  from e have "Aps_frame_items elevation level_index ?ts = Inl InvalidArgument"
    by (cases "Aps_frame_items elevation level_index ?ts") (auto simp: Aps_to_frame_def)
  from Aps_frame_items_error [OF this] show False
    by (auto simp: InvalidArgument_def EmptyContainerError_def)
qed

text \<open>
  C6. A day with the bands 0 to 500 and 500 upwards, exported with elevation \<^verbatim>\<open>0\<close> and no
  band index. Elevation 0 lies in the range of the first band, yet no band is selected
  at any level of the export: \<^verbatim>\<open>elevation and ...\<close> is falsy for \<^verbatim>\<open>0\<close>, and what is left
  of the condition is \<^verbatim>\<open>lvl.index == None\<close>. With elevation 1 the first band is selected.
\<close>

theorem to_frame_elevation_zero:
  "in_range 0 (temp_band (Some 0) (Some 500) (Some 1))
   \<and> Day_to_frame
        (sample_day (2024, 1, 15) 3003
           [temp_band (Some 0) (Some 500) (Some 1), temp_band (Some 500) None (Some 2)])
        (Some 0) None
      = Inr []
   \<and> Timeline_to_frame
        [((2024, 1, 15), sample_day (2024, 1, 15) 3003
           [temp_band (Some 0) (Some 500) (Some 1), temp_band (Some 500) None (Some 2)])]
        (Some 0) None
      = Inr (3003, [])
   \<and> Aps_to_frame
        [(3003, [((2024, 1, 15), sample_day (2024, 1, 15) 3003
           [temp_band (Some 0) (Some 500) (Some 1), temp_band (Some 500) None (Some 2)])])]
        (Some 0) None
      = Inr [(3003, (3003, []))]
   \<and> Day_to_frame
        (sample_day (2024, 1, 15) 3003
           [temp_band (Some 0) (Some 500) (Some 1), temp_band (Some 500) None (Some 2)])
        (Some 1) None
      = Inr [(''0-500'', frame_row (temp_band (Some 0) (Some 500) (Some 1)))]"
  by (simp add: sample_defs frame_defs)

text \<open>
  C7. The same day exported with both an elevation and a band index. \<^verbatim>\<open>Day.to_frame\<close>
  raises "Only one of elevation and level_index parameters can be defined";
  \<^verbatim>\<open>Timeline.to_frame\<close> and \<^verbatim>\<open>Aps.to_frame\<close> have no such guard and return the rows that
  pass either filter.
\<close>

theorem to_frame_both_filters:
  "Day_to_frame
     (sample_day (2024, 1, 15) 3003
        [temp_band (Some 0) (Some 500) (Some 1), temp_band (Some 500) None (Some 2)])
     (Some 100) (Some 2)
   = Inl InvalidArgument
   \<and> Timeline_to_frame
        [((2024, 1, 15), sample_day (2024, 1, 15) 3003
           [temp_band (Some 0) (Some 500) (Some 1), temp_band (Some 500) None (Some 2)])]
        (Some 100) (Some 2)
      = Inr (3003,
          [(((2024, 1, 15), ''0-500''), frame_row (temp_band (Some 0) (Some 500) (Some 1))),
           (((2024, 1, 15), ''500''), frame_row (temp_band (Some 500) None (Some 2)))])
   \<and> Aps_to_frame
        [(3003, [((2024, 1, 15), sample_day (2024, 1, 15) 3003
           [temp_band (Some 0) (Some 500) (Some 1), temp_band (Some 500) None (Some 2)])])]
        (Some 100) (Some 2)
      = Inr [(3003, (3003,
          [(((2024, 1, 15), ''0-500''), frame_row (temp_band (Some 0) (Some 500) (Some 1))),
           (((2024, 1, 15), ''500''), frame_row (temp_band (Some 500) None (Some 2)))]))]"
  by (simp add: sample_defs frame_defs)

section \<open>Properties of region derivation and deserialization\<close>







text \<open>
  C9. \<^verbatim>\<open>Data.deserialize\<close> fills \<^verbatim>\<open>perc95\<close> from the wire field \<^verbatim>\<open>Perc05\<close>: in every
  deserialized measurement \<^verbatim>\<open>perc95\<close> equals \<^verbatim>\<open>perc05\<close> and is the payload's \<^verbatim>\<open>Perc05\<close>;
  adding, changing or removing a \<^verbatim>\<open>Perc95\<close> field of the payload changes nothing; and
  the six fields that are read suffice for the call to succeed.
\<close>

theorem deserialize_perc95:
  "(\<forall>d. Data_deserialize c json = Inr d \<longrightarrow>
        perc95 d = perc05 d \<and> json ''Perc05'' = Some (perc95 d))
   \<and> Data_deserialize c (json(''Perc95'' := v)) = Data_deserialize c json
   \<and> ((\<forall>k \<in> set [''Minimum'', ''Perc05'', ''FirstQuartile'', ''Median'', ''ThirdQuartile'',
                   ''Maximum'']. json k \<noteq> None)
       \<longrightarrow> (\<exists>d. Data_deserialize c json = Inr d))"
proof (intro conjI allI impI)
  fix d assume "Data_deserialize c json = Inr d"
  then show "perc95 d = perc05 d" and "json ''Perc05'' = Some (perc95 d)"
    by (auto simp: Data_deserialize_def json_getitem_def split: option.splits)
next
  show "Data_deserialize c (json(''Perc95'' := v)) = Data_deserialize c json"
    by (simp add: Data_deserialize_def json_getitem_def)
next
  assume "\<forall>k \<in> set [''Minimum'', ''Perc05'', ''FirstQuartile'', ''Median'', ''ThirdQuartile'',
                   ''Maximum'']. json k \<noteq> None"
  then show "\<exists>d. Data_deserialize c json = Inr d"
    by (auto simp: Data_deserialize_def json_getitem_def)
qed

theorem deserialize_perc95_witness:
  "sample_json ''Perc95'' = Some (Some 195)
   \<and> Data_deserialize Temp sample_json
      = Inr \<lparr> cls = Temp, perc00 = Some 100, perc05 = Some 105, perc25 = Some 110,
              perc50 = Some 120, perc75 = Some 130, perc95 = Some 105, perc100 = Some 200 \<rparr>
   \<and> Data_deserialize Temp (sample_json(''Perc95'' := None)) = Data_deserialize Temp sample_json"
  using deserialize_perc95 [of Temp sample_json None]
  by (simp add: sample_json_def Data_deserialize_def json_getitem_def)

text \<open>
  C10. A payload whose \<^verbatim>\<open>TimeLine\<close> list is empty: \<^verbatim>\<open>Timeline.deserialize\<close> succeeds and
  returns the empty timeline, and \<^verbatim>\<open>Aps.deserialize\<close> fails with the "No days to find
  region from" error of \<^verbatim>\<open>get_region\<close>, whatever the requested data type is.
\<close>

theorem Aps_deserialize_empty:
  assumes "TimeLine json = Some []"
  shows "Timeline_deserialize fromisoformat snow_region json dtype = Inr Container_init
         \<and> Aps_deserialize fromisoformat snow_region json dtype = Inl EmptyContainerError"
  using assms
  by (simp add: Aps_deserialize_def Timeline_deserialize_def field_getitem_def get_region_def
      Timeline_bool_def Container_bool_def Container_iter_def Container_init_def)

theorem Aps_deserialize_empty_witness:
  "TimeLine \<lparr> TimeLine = Some [] \<rparr> = Some []
   \<and> Timeline_deserialize (\<lambda>s. Inr (2024, 1, 15)) (\<lambda>s. Inr 3003)
        \<lparr> TimeLine = Some [] \<rparr> (Weather Temp) = Inr []
   \<and> Aps_deserialize (\<lambda>s. Inr (2024, 1, 15)) (\<lambda>s. Inr 3003)
        \<lparr> TimeLine = Some [] \<rparr> (Weather Temp)
      = Inl (ValueError ''No days to find region from'')"
  using Aps_deserialize_empty [of "\<lparr> TimeLine = Some [] \<rparr>"
      "\<lambda>s. Inr (2024, 1, 15)" "\<lambda>s. Inr 3003" "Weather Temp"]
  by (simp add: Container_init_def EmptyContainerError_def)

end
